theory Spec2Isabelle
  imports Main
begin

section \<open>Data model\<close>

text \<open>
  A node of the control-flow graph is identified by a number; the universal root node
  (\<open>vm.root_cfg_node\<close>) is the first node the program creates.
\<close>

type_synonym node = nat

text \<open>
  Python type objects that occur as constants: the thirteen primitive types of
  \<open>Converter.__init__\<close>, \<open>long\<close>, and the container types the converter looks up.
\<close>

datatype pytype =
    T_int | T_float | T_str | T_unicode | T_object | T_NoneType | T_complex | T_bool
  | T_slice | T_CodeType | T_EllipsisType | T_ClassType | T_super
  | T_long | T_list | T_set | T_dict | T_type | T_ModuleType | T_FunctionType
  | T_tuple | T_GeneratorType

text \<open>
  Declared types (\<open>pytd\<close> nodes). \<open>Class name parents template\<close> is a class declaration;
  \<open>ClassType name\<close> refers to a class by name, its \<open>cls\<close> pointer being resolved by the
  loader; \<open>TupleType\<close> is the fixed-arity subclass of \<open>GenericType\<close>. Type parameters,
  functions, modules and callables are outside the model.
\<close>

datatype pytd =
    Class string "pytd list" "string list"
  | ClassType string
  | NothingType
  | AnythingType
  | UnionType "pytd list"
  | GenericType pytd "pytd list"
  | TupleType pytd "pytd list"

text \<open>
  The constants \<open>constant_to_value\<close> accepts: literals of the code's constant pool, Python
  type objects, declared types, and the wrapper \<open>abstract.AsInstance\<close>. The wrapper is a
  plain object, compared by identity: it carries the number of the object.
\<close>

datatype pyval =
    PyStr string
  | PyInt int
  | PyLong int
  | PyBool bool
  | PyNone
  | PyEllipsis
  | PyType pytype
  | Pytd pytd
  | AsInstance nat pytd

text \<open>Keys of the type parameters of a class: a position or a name.\<close>

datatype tparam = Idx nat | Name string

text \<open>
  Abstract values and bindings. A value that is an object with an identity carries the
  number it was given at construction; two values are the same instance when they are
  equal. A Variable is the list of its bindings; a binding holds a value, the bindings it
  came from and the node where it became valid. A class carries the rest of its
  method-resolution order (the order is the class itself, then this list) and its members.
  An item of a class's lazy type-parameter dictionary is either the declaration still to
  be converted, or a value.
\<close>

datatype aval =
    AbstractOrConcreteValue nat pyval aval
  | Instance nat aval "(string \<times> binding list) list"
  | Unknown nat
  | Unsolvable nat
  | Nothing nat
  | Empty nat
  | Object nat
  | Super nat
  | PyTDClass nat string "aval list" "(string \<times> binding list) list"
  | InterpreterClass nat string "aval list" "(string \<times> binding list) list"
  | ParameterizedClass nat aval "(tparam \<times> (pytd + aval)) list"
  | TupleClass nat aval "(tparam \<times> (pytd + aval)) list"
  | Union_val "aval list"
  | Tuple nat "binding list list"
  | List_val nat "binding list list"
  | Function nat string
  | Iterator nat "binding list"
and binding =
    Binding (data: aval) (source_set: "binding list") (origin: node)

type_synonym variable = "binding list"


section \<open>Exceptions, diagnostics and the interpreter state\<close>

text \<open>
  Exceptions are values: a function that can raise returns \<open>Inl\<close> of the exception.
  \<open>RuntimeError\<close> stands for Python's "maximum recursion depth exceeded".
\<close>

datatype exc =
    DictKeyMissing string
  | FailedFunctionCall string
  | AssertionError
  | AttributeError string
  | KeyError string
  | IndexError
  | ValueError
  | TypeError
  | NotImplementedError
  | TypeParameterError string
  | ConversionError
  | VirtualMachineError string
  | RuntimeError

text \<open>The calls on the diagnostics sink (\<open>vm.errorlog\<close>), with what they report.\<close>

datatype report =
    recursion_error string
  | mro_error string
  | key_error string
  | invalid_function_call "exc option"
  | none_attr string
  | attribute_error string
  | attribute_or_module_error string

text \<open>
  Calls on the external collaborators are recorded in the state, in the order they are
  made: an attribute lookup (the object and the attribute name) and a call of a function
  value (the callee and its positional arguments).
\<close>

datatype event =
    GetAttribute aval string
  | Call aval "variable list"

text \<open>The keys of the converter's cache.\<close>

datatype key =
    KConstant pyval
  | KInstance pytd
  | KUnknown "nat option" string

text \<open>
  The mutable state: the converter's cache (\<open>Some None\<close> is the in-progress sentinel
  \<open>None\<close> of the source), the diagnostics reported so far, the next object number and the
  next graph node, the edges of the graph, the record of collaborator calls, and the
  opcode the current frame is executing (\<open>None\<close>: no frame is active).
\<close>

record vm_state =
  convert_cache :: "key \<rightharpoonup> aval option"
  errorlog :: "report list"
  next_id :: nat
  next_node :: node
  edges :: "(node \<times> node) list"
  calls :: "event list"
  frame_opcode :: "nat option option"

text \<open>
  The collaborators the two modules consume and that are not part of them: the loader's
  tables (\<open>loader.builtins\<close>, \<open>loader.typing\<close>, and the class a \<open>ClassType\<close> points to), the
  linearisation of a class's bases (\<open>None\<close>: the order is inconsistent), the attribute
  handler, the call of a function value, the graph's view of a variable at a node, the
  ranking of call errors (\<open>e > error\<close>), the graph's feasibility query, and two operations
  of the value model (the instances of a class, the merge of values into one), and the
  option \<open>cache_unknowns\<close>.
\<close>

record env =
  builtins :: "string \<rightharpoonup> pytd"
  typing :: "string \<rightharpoonup> pytd"
  cls_pointer :: "string \<rightharpoonup> pytd"
  mro_merge :: "aval list \<Rightarrow> aval list option"
  attribute_handler :: "node \<Rightarrow> aval \<Rightarrow> string \<Rightarrow> binding \<Rightarrow> node \<times> variable option"
  func_call :: "node \<Rightarrow> binding \<Rightarrow> variable list \<Rightarrow> exc + node \<times> variable"
  Bindings :: "variable \<Rightarrow> node \<Rightarrow> binding list"
  exc_gt :: "exc \<Rightarrow> exc option \<Rightarrow> bool"
  HasCombination :: "node \<Rightarrow> binding list \<Rightarrow> bool"
  instantiate :: "aval \<Rightarrow> node \<Rightarrow> variable"
  merge_values :: "aval list \<Rightarrow> aval"
  cache_unknowns :: bool

text \<open>
  The converter object. An attribute that \<open>__init__\<close> has not assigned yet is \<open>None\<close>, and
  reading it raises \<open>AttributeError\<close>; \<open>primitive_classes\<close> starts as the empty tuple.
\<close>

record converter =
  primitive_classes :: "pytype \<rightharpoonup> aval"
  primitive_class_instances :: "pytype \<rightharpoonup> aval"
  object_type :: "aval option"
  none :: "aval option"
  true :: "aval option"
  false :: "aval option"
  ellipsis :: "aval option"
  none_type :: "aval option"
  super_type :: "aval option"
  str_type :: "aval option"
  int_type :: "aval option"
  nothing :: "aval option"
  unsolvable :: "aval option"
  empty :: "aval option"
  list_type :: "aval option"
  tuple_type :: "aval option"
  module_type :: "aval option"

definition root_cfg_node :: node where
  "root_cfg_node = 0"

definition attr :: "'a option \<Rightarrow> string \<Rightarrow> exc + 'a" where
  "attr x name = (case x of None \<Rightarrow> Inl (AttributeError name) | Some v \<Rightarrow> Inr v)"

subsection \<open>Primitives of the graph store\<close>

text \<open>
  \<open>value.to_variable(node)\<close>: a new variable with one binding of the value at the node.
  \<open>binding.AssignToNewVariable()\<close>: a new variable holding the binding's value, with the
  binding as its source. \<open>PasteVariable\<close> adds the bindings of a variable, at a node when
  one is given.
\<close>

definition to_variable :: "aval \<Rightarrow> node \<Rightarrow> variable" where
  "to_variable v node = [Binding v [] node]"

definition NewVariable :: "aval list \<Rightarrow> binding list \<Rightarrow> node \<Rightarrow> variable" where
  "NewVariable vals srcs node = map (\<lambda>v. Binding v srcs node) vals"

definition AddBinding :: "variable \<Rightarrow> aval \<Rightarrow> binding list \<Rightarrow> node \<Rightarrow> variable" where
  "AddBinding var v srcs node = var @ [Binding v srcs node]"

definition AssignToNewVariable :: "binding \<Rightarrow> variable" where
  "AssignToNewVariable b = [Binding (data b) [b] (origin b)]"

definition PasteVariable ::
  "variable \<Rightarrow> variable \<Rightarrow> node option \<Rightarrow> binding list \<Rightarrow> variable" where
  "PasteVariable var other where_node srcs =
     var @ map (\<lambda>b. Binding (data b) (b # srcs)
                       (case where_node of None \<Rightarrow> origin b | Some n \<Rightarrow> n)) other"

definition NewCFGNode :: "vm_state \<Rightarrow> node \<times> vm_state" where
  "NewCFGNode s = (next_node s, s\<lparr>next_node := Suc (next_node s)\<rparr>)"

definition ConnectTo :: "node \<Rightarrow> node \<Rightarrow> vm_state \<Rightarrow> vm_state" where
  "ConnectTo a b s = s\<lparr>edges := edges s @ [(a, b)]\<rparr>"

definition report_error :: "report \<Rightarrow> vm_state \<Rightarrow> vm_state" where
  "report_error r s = s\<lparr>errorlog := errorlog s @ [r]\<rparr>"


section \<open>The interpreter: calling functions (vm.py)\<close>

text \<open>Attributes of abstract values that the interpreter reads.\<close>

fun name_of :: "aval \<Rightarrow> string" where
  "name_of (Function _ n) = n"
| "name_of (PyTDClass _ n _ _) = n"
| "name_of (InterpreterClass _ n _ _) = n"
| "name_of _ = []"

fun is_call_error :: "exc \<Rightarrow> bool" where
  "is_call_error (DictKeyMissing _) = True"
| "is_call_error (FailedFunctionCall _) = True"
| "is_call_error _ = False"

definition create_new_unsolvable :: "converter \<Rightarrow> node \<Rightarrow> exc + variable" where
  "create_new_unsolvable C node =
     (case attr (unsolvable C) ''unsolvable'' of
        Inl e \<Rightarrow> Inl e
      | Inr u \<Rightarrow> Inr (to_variable u node))"

definition join_cfg_nodes :: "node list \<Rightarrow> vm_state \<Rightarrow> (exc + node) \<times> vm_state" where
  "join_cfg_nodes nodes s =
     (case nodes of
        [] \<Rightarrow> (Inl AssertionError, s)
      | [n] \<Rightarrow> (Inr n, s)
      | _ \<Rightarrow> (let (ret, s1) = NewCFGNode s
             in (Inr ret, foldl (\<lambda>st n. ConnectTo n ret st) s1 nodes)))"

text \<open>\<open>func.call(node, funcv, args)\<close>: the collaborator's answer, and the call recorded.\<close>

definition call_value ::
  "env \<Rightarrow> node \<Rightarrow> binding \<Rightarrow> variable list \<Rightarrow> vm_state \<Rightarrow> (exc + node \<times> variable) \<times> vm_state" where
  "call_value E node funcv args s =
     (func_call E node funcv args, s\<lparr>calls := calls s @ [Call (data funcv) args]\<rparr>)"

definition priv_call_with_fake_args ::
  "converter \<Rightarrow> node \<Rightarrow> variable \<Rightarrow> vm_state \<Rightarrow> (exc + node \<times> variable) \<times> vm_state" where
  "priv_call_with_fake_args C node funcu s =
     (case create_new_unsolvable C node of
        Inl e \<Rightarrow> (Inl e, s)
      | Inr v \<Rightarrow> (Inr (node, v), s))"

text \<open>
  The loop of \<open>call_function\<close> over the bindings of the callee: it accumulates the result
  variable, the nodes of the calls that succeeded and the highest-ranked error. Only
  \<open>DictKeyMissing\<close> and \<open>FailedFunctionCall\<close> are caught.
\<close>

fun call_function_loop ::
  "env \<Rightarrow> node \<Rightarrow> variable list \<Rightarrow> binding list \<Rightarrow> variable \<Rightarrow> node list \<Rightarrow> exc option
     \<Rightarrow> vm_state \<Rightarrow> (exc + variable \<times> node list \<times> exc option) \<times> vm_state" where
  "call_function_loop E node args [] result nodes error s = (Inr (result, nodes, error), s)"
| "call_function_loop E node args (funcv # rest) result nodes error s =
     (case call_value E node funcv args s of
        (Inl e, s1) \<Rightarrow>
          (if is_call_error e
           then call_function_loop E node args rest result nodes
                  (if exc_gt E e error then Some e else error) s1
           else (Inl e, s1))
      | (Inr (new_node, one_result), s1) \<Rightarrow>
          call_function_loop E node args rest
            (PasteVariable result one_result (Some new_node) [funcv]) (nodes @ [new_node]) error s1)"

definition call_function ::
  "env \<Rightarrow> converter \<Rightarrow> node \<Rightarrow> variable \<Rightarrow> variable list \<Rightarrow> bool \<Rightarrow> vm_state
     \<Rightarrow> (exc + node \<times> variable) \<times> vm_state" where
  "call_function E C node funcu args fallback_to_unsolvable s =
     (if funcu = [] then (Inl AssertionError, s)
      else case call_function_loop E node args funcu [] [] None s of
        (Inl e, s1) \<Rightarrow> (Inl e, s1)
      | (Inr (result, nodes, error), s1) \<Rightarrow>
          (if nodes \<noteq> [] then
             (case join_cfg_nodes nodes s1 of
                (Inl e, s2) \<Rightarrow> (Inl e, s2)
              | (Inr node', s2) \<Rightarrow>
                  (if result = [] then
                     (case attr (unsolvable C) ''unsolvable'' of
                        Inl e \<Rightarrow> (Inl e, s2)
                      | Inr u \<Rightarrow> (Inr (node', AddBinding result u [] node'), s2))
                   else (Inr (node', result), s2)))
           else if fallback_to_unsolvable then
             (case error of
                Some (DictKeyMissing name) \<Rightarrow>
                  (case create_new_unsolvable C node of
                     Inl e \<Rightarrow> (Inl e, report_error (key_error name) s1)
                   | Inr v \<Rightarrow> (Inr (node, v), report_error (key_error name) s1))
              | _ \<Rightarrow>
                  (let s2 = report_error (invalid_function_call error) s1
                   in if (\<forall>func \<in> set (map data funcu). name_of func = ''__init__'')
                      then priv_call_with_fake_args C node funcu s2
                      else (case create_new_unsolvable C node of
                              Inl e \<Rightarrow> (Inl e, s2)
                            | Inr v \<Rightarrow> (Inr (node, v), s2))))
           else (case error of
                   None \<Rightarrow> (Inl TypeError, s1)
                 | Some e \<Rightarrow> (Inl e, s1))))"


section \<open>The interpreter: binary operator dispatch (vm.py)\<close>

definition reversable_operators :: "string list" where
  "reversable_operators =
     [''__add__'', ''__sub__'', ''__mul__'',
      ''__div__'', ''__truediv__'', ''__floordiv__'',
      ''__mod__'', ''__divmod__'', ''__pow__'',
      ''__lshift__'', ''__rshift__'', ''__and__'', ''__or__'', ''__xor__'',
      ''__matmul__'']"

definition reverse_operator_name :: "string \<Rightarrow> string option" where
  "reverse_operator_name name =
     (if name \<in> set reversable_operators then Some (''__r'' @ drop 2 name) else None)"

text \<open>\<open>isinstance(x, abstract.AMBIGUOUS_OR_EMPTY)\<close>: the two wildcards and the empty value.\<close>

fun AMBIGUOUS_OR_EMPTY :: "aval \<Rightarrow> bool" where
  "AMBIGUOUS_OR_EMPTY (Unknown _) = True"
| "AMBIGUOUS_OR_EMPTY (Unsolvable _) = True"
| "AMBIGUOUS_OR_EMPTY (Empty _) = True"
| "AMBIGUOUS_OR_EMPTY _ = False"

text \<open>
  The attributes of classes. The method-resolution order of a class is the class, then the
  list it carries; a parameterized class has the order of its base class, with itself
  first. A value that is not a class has no such attribute. The class of a value
  (\<open>data.cls\<close>) is a variable, or \<open>None\<close>. A declared class is lazy: its members are the
  ones it holds once loaded.
\<close>

fun mro :: "aval \<Rightarrow> aval list option" where
  "mro (PyTDClass i n ms mem) = Some (PyTDClass i n ms mem # ms)"
| "mro (InterpreterClass i n ms mem) = Some (InterpreterClass i n ms mem # ms)"
| "mro (ParameterizedClass i b ps) =
     (case mro b of None \<Rightarrow> None | Some m \<Rightarrow> Some (ParameterizedClass i b ps # tl m))"
| "mro (TupleClass i b ps) =
     (case mro b of None \<Rightarrow> None | Some m \<Rightarrow> Some (TupleClass i b ps # tl m))"
| "mro _ = None"

fun members :: "aval \<Rightarrow> (string \<times> variable) list" where
  "members (PyTDClass _ _ _ mem) = mem"
| "members (InterpreterClass _ _ _ mem) = mem"
| "members _ = []"

fun is_lazy :: "aval \<Rightarrow> bool" where
  "is_lazy (PyTDClass _ _ _ _) = True"
| "is_lazy _ = False"

definition load_lazy_attribute :: "aval \<Rightarrow> string \<Rightarrow> aval" where
  "load_lazy_attribute cls name = cls"

fun cls_attr :: "aval \<Rightarrow> variable option" where
  "cls_attr (Instance _ c _) = Some (to_variable c root_cfg_node)"
| "cls_attr (AbstractOrConcreteValue _ _ c) = Some (to_variable c root_cfg_node)"
| "cls_attr _ = None"

fun is_ParameterizedClass :: "aval \<Rightarrow> bool" where
  "is_ParameterizedClass (ParameterizedClass _ _ _) = True"
| "is_ParameterizedClass (TupleClass _ _ _) = True"
| "is_ParameterizedClass _ = False"

fun base_cls :: "aval \<Rightarrow> aval" where
  "base_cls (ParameterizedClass _ b _) = b"
| "base_cls (TupleClass _ b _) = b"
| "base_cls v = v"

definition priv_base :: "aval \<Rightarrow> aval" where
  "priv_base cls = (if is_ParameterizedClass cls then base_cls cls else cls)"

text \<open>
  \<open>_yield_subclass_superclass_pairs\<close> is a generator: the list holds what it yields, in
  order, and ends with \<open>Inl\<close> of the exception when advancing it raises.
\<close>

fun yield_pairs :: "(aval \<times> aval) list \<Rightarrow> (exc + aval \<times> aval) list" where
  "yield_pairs [] = []"
| "yield_pairs ((subcls, supercls) # rest) =
     (case mro subcls of
        None \<Rightarrow> [Inl (AttributeError ''mro'')]
      | Some m \<Rightarrow>
          (if supercls \<in> set m then [Inr (priv_base subcls, priv_base supercls)] else [])
          @ yield_pairs rest)"

definition priv_yield_subclass_superclass_pairs ::
  "variable option \<Rightarrow> variable option \<Rightarrow> (exc + aval \<times> aval) list" where
  "priv_yield_subclass_superclass_pairs subcls_var supercls_var =
     (case (subcls_var, supercls_var) of
        (Some subv, Some superv) \<Rightarrow> yield_pairs (List.product (map data subv) (map data superv))
      | _ \<Rightarrow> [])"

text \<open>The inner loop of \<open>_overrides\<close>, over the classes of the subclass's order.\<close>

fun overrides_in_mro :: "env \<Rightarrow> node \<Rightarrow> string \<Rightarrow> aval \<Rightarrow> aval list \<Rightarrow> bool" where
  "overrides_in_mro E node a supercls [] = False"
| "overrides_in_mro E node a supercls (cls # rest) =
     (if cls = supercls then False
      else if (case map_of (members (if is_lazy cls then load_lazy_attribute cls a else cls)) a of
                 None \<Rightarrow> False
               | Some v \<Rightarrow> Bindings E v node \<noteq> [])
      then True
      else overrides_in_mro E node a supercls rest)"

fun overrides_pairs :: "env \<Rightarrow> node \<Rightarrow> string \<Rightarrow> (exc + aval \<times> aval) list \<Rightarrow> exc + bool" where
  "overrides_pairs E node a [] = Inr False"
| "overrides_pairs E node a (Inl e # rest) = Inl e"
| "overrides_pairs E node a (Inr (subcls, supercls) # rest) =
     (case mro subcls of
        None \<Rightarrow> Inl (AttributeError ''mro'')
      | Some m \<Rightarrow>
          (if overrides_in_mro E node a supercls m then Inr True
           else overrides_pairs E node a rest))"

definition priv_overrides ::
  "env \<Rightarrow> node \<Rightarrow> variable option \<Rightarrow> variable option \<Rightarrow> string \<Rightarrow> exc + bool" where
  "priv_overrides E node subcls_var supercls_var a =
     overrides_pairs E node a (priv_yield_subclass_superclass_pairs subcls_var supercls_var)"

text \<open>
  \<open>attribute_handler.get_attribute_generic\<close>: the collaborator's answer, and the lookup
  recorded.
\<close>

definition get_attribute_generic ::
  "env \<Rightarrow> node \<Rightarrow> aval \<Rightarrow> string \<Rightarrow> binding \<Rightarrow> vm_state \<Rightarrow> (node \<times> variable option) \<times> vm_state" where
  "get_attribute_generic E node obj name b s =
     (attribute_handler E node obj name b, s\<lparr>calls := calls s @ [GetAttribute obj name]\<rparr>)"

text \<open>
  The candidates of \<open>_call_binop_on_bindings\<close> in the order they are tried, and the loop
  that tries them.
\<close>

definition binop_options ::
  "env \<Rightarrow> node \<Rightarrow> string \<Rightarrow> binding \<Rightarrow> binding \<Rightarrow> exc + (binding \<times> binding \<times> string) list" where
  "binop_options E node name xval yval =
     (case reverse_operator_name name of
        None \<Rightarrow> Inr [(xval, yval, name)]
      | Some rname \<Rightarrow>
          (case priv_overrides E node (cls_attr (data yval)) (cls_attr (data xval)) rname of
             Inl e \<Rightarrow> Inl e
           | Inr b \<Rightarrow>
               Inr (if b then [(yval, xval, rname), (xval, yval, name)]
                    else [(xval, yval, name), (yval, xval, rname)])))"

fun binop_loop ::
  "env \<Rightarrow> converter \<Rightarrow> node \<Rightarrow> (binding \<times> binding \<times> string) list \<Rightarrow> exc option \<Rightarrow> vm_state
     \<Rightarrow> (exc + node \<times> variable option) \<times> vm_state" where
  "binop_loop E C node [] error s =
     (case error of None \<Rightarrow> (Inr (node, None), s) | Some e \<Rightarrow> (Inl e, s))"
| "binop_loop E C node ((left_val, right_val, attr_name) # rest) error s =
     (case get_attribute_generic E node (data left_val) attr_name left_val s of
        ((node1, attr_var), s1) \<Rightarrow>
          (if attr_var \<noteq> None \<and> attr_var \<noteq> Some [] then
             (case call_function E C node1 (the attr_var) [AssignToNewVariable right_val] False s1 of
                (Inl e, s2) \<Rightarrow>
                  (if is_call_error e
                   then binop_loop E C node1 rest (if exc_gt E e error then Some e else error) s2
                   else (Inl e, s2))
              | (Inr (node2, ret), s2) \<Rightarrow> (Inr (node2, Some ret), s2))
           else binop_loop E C node1 rest error s1))"

definition priv_call_binop_on_bindings ::
  "env \<Rightarrow> converter \<Rightarrow> node \<Rightarrow> string \<Rightarrow> binding \<Rightarrow> binding \<Rightarrow> vm_state
     \<Rightarrow> (exc + node \<times> variable option) \<times> vm_state" where
  "priv_call_binop_on_bindings E C node name xval yval s =
     (if reverse_operator_name name \<noteq> None \<and> AMBIGUOUS_OR_EMPTY (data xval) then
        (case attr (unsolvable C) ''unsolvable'' of
           Inl e \<Rightarrow> (Inl e, s)
         | Inr u \<Rightarrow> (Inr (node, Some (NewVariable [u] [xval, yval] node)), s))
      else
        (case binop_options E node name xval yval of
           Inl e \<Rightarrow> (Inl e, s)
         | Inr options \<Rightarrow> binop_loop E C node options None s))"

section \<open>Frame states (state.py)\<close>

text \<open>
  Modelled from the spec: the module \<open>state.py\<close> is not among the sources. A state is the
  graph node, the data stack (its top is the last element) and the block stack, with the
  reason \<open>why\<close> that ends the processing of a block. A block records its kind, the target
  instruction and the stack depth at entry.
\<close>

record block =
  block_type :: string
  block_handler :: nat
  block_level :: nat

record frame_state =
  st_node :: node
  data_stack :: "variable list"
  block_stack :: "block list"
  why :: "string option"




definition set_why :: "frame_state \<Rightarrow> string \<Rightarrow> frame_state" where
  "set_why st w = st\<lparr>why := Some w\<rparr>"


section \<open>The interpreter: attributes, iteration and unpacking (vm.py)\<close>










subsection \<open>Builders of the converter that the interpreter calls (convert.py)\<close>






subsection \<open>Iteration\<close>


subsection \<open>Sequence unpacking\<close>












section \<open>Concrete inputs\<close>

text \<open>
  Concrete collaborators, converter and state on which the theorems are exercised, and two
  classes: \<open>A\<close> defines \<open>__add__\<close>; \<open>B\<close>, a subclass of \<open>A\<close>, defines \<open>__radd__\<close>.
\<close>

definition example_env :: env where
  "example_env =
     \<lparr>builtins = Map.empty, typing = Map.empty, cls_pointer = Map.empty,
      mro_merge = (\<lambda>bases. Some bases),
      attribute_handler = (\<lambda>node obj name b. (node, None)),
      func_call = (\<lambda>node funcv args. Inl (FailedFunctionCall ''missing parameter'')),
      Bindings = (\<lambda>var node. var),
      exc_gt = (\<lambda>e old. old = None),
      HasCombination = (\<lambda>node bs. True),
      instantiate = (\<lambda>cls node. []),
      merge_values = (\<lambda>vs. Union_val vs),
      cache_unknowns = True\<rparr>"

definition example_converter :: converter where
  "example_converter =
     \<lparr>primitive_classes = Map.empty, primitive_class_instances = Map.empty,
      object_type = None, none = None, true = None, false = None, ellipsis = None,
      none_type = None, super_type = None, str_type = None, int_type = None,
      nothing = Some (Nothing 0), unsolvable = Some (Unsolvable 1), empty = Some (Empty 2),
      list_type = Some (PyTDClass 3 ''list'' [] []), tuple_type = None, module_type = None\<rparr>"

definition example_state :: vm_state where
  "example_state =
     \<lparr>convert_cache = Map.empty, errorlog = [], next_id = 10, next_node = 1, edges = [],
      calls = [], frame_opcode = None\<rparr>"

definition class_A :: aval where
  "class_A = InterpreterClass 20 ''A'' [] [(''__add__'', [Binding (Function 22 ''__add__'') [] 0])]"

definition class_B :: aval where
  "class_B = InterpreterClass 21 ''B'' [class_A]
               [(''__radd__'', [Binding (Function 23 ''__radd__'') [] 0])]"




section \<open>The conversion engine (convert.py)\<close>

definition MAX_IMPORT_DEPTH :: int where
  "MAX_IMPORT_DEPTH = 12"

text \<open>\<open>pyval.__class__\<close> of a Python constant, and \<open>__name__\<close> of a Python type.\<close>

fun class_of :: "pyval \<Rightarrow> pytype option" where
  "class_of (PyStr _) = Some T_str"
| "class_of (PyInt _) = Some T_int"
| "class_of (PyLong _) = Some T_long"
| "class_of (PyBool _) = Some T_bool"
| "class_of PyNone = Some T_NoneType"
| "class_of PyEllipsis = Some T_EllipsisType"
| "class_of (PyType _) = Some T_type"
| "class_of (Pytd _) = None"
| "class_of (AsInstance _ _) = None"

fun type_name :: "pytype \<Rightarrow> string" where
  "type_name T_int = ''int''"
| "type_name T_float = ''float''"
| "type_name T_str = ''str''"
| "type_name T_unicode = ''unicode''"
| "type_name T_object = ''object''"
| "type_name T_NoneType = ''NoneType''"
| "type_name T_complex = ''complex''"
| "type_name T_bool = ''bool''"
| "type_name T_slice = ''slice''"
| "type_name T_CodeType = ''code''"
| "type_name T_EllipsisType = ''ellipsis''"
| "type_name T_ClassType = ''classobj''"
| "type_name T_super = ''super''"
| "type_name T_long = ''long''"
| "type_name T_list = ''list''"
| "type_name T_set = ''set''"
| "type_name T_dict = ''dict''"
| "type_name T_type = ''type''"
| "type_name T_ModuleType = ''module''"
| "type_name T_FunctionType = ''function''"
| "type_name T_tuple = ''tuple''"
| "type_name T_GeneratorType = ''generator''"

text \<open>
  The value of a constant that is an \<open>int\<close> (\<open>isinstance(pyval, int)\<close>): \<open>bool\<close> is a
  subclass of \<open>int\<close>, \<open>long\<close> is not.
\<close>

fun int_value :: "pyval \<Rightarrow> int option" where
  "int_value (PyInt i) = Some i"
| "int_value (PyBool b) = Some (if b then 1 else 0)"
| "int_value _ = None"

text \<open>The name reported for a recursion: \<open>pyval.name\<close>, or the name of the constant's class.\<close>

fun pytd_name :: "pytd \<Rightarrow> string" where
  "pytd_name (Class n _ _) = n"
| "pytd_name (ClassType n) = n"
| "pytd_name NothingType = ''NothingType''"
| "pytd_name AnythingType = ''AnythingType''"
| "pytd_name (UnionType _) = ''UnionType''"
| "pytd_name (GenericType b _) = pytd_name b"
| "pytd_name (TupleType b _) = pytd_name b"

fun pyval_name :: "pyval \<Rightarrow> string" where
  "pyval_name (Pytd t) = pytd_name t"
| "pyval_name (AsInstance _ _) = ''AsInstance''"
| "pyval_name (PyType _) = ''type''"
| "pyval_name v = (case class_of v of Some t \<Rightarrow> type_name t | None \<Rightarrow> [])"

definition lookup_builtin :: "env \<Rightarrow> string \<Rightarrow> exc + pytd" where
  "lookup_builtin E name =
     (case builtins E name of
        Some c \<Rightarrow> Inr c
      | None \<Rightarrow> (case typing E name of Some c \<Rightarrow> Inr c | None \<Rightarrow> Inl (KeyError name)))"

text \<open>\<open>isinstance(v, abstract.Class)\<close>.\<close>

fun is_Class :: "aval \<Rightarrow> bool" where
  "is_Class (PyTDClass _ _ _ _) = True"
| "is_Class (InterpreterClass _ _ _ _) = True"
| "is_Class (ParameterizedClass _ _ _) = True"
| "is_Class (TupleClass _ _ _) = True"
| "is_Class (Object _) = True"
| "is_Class (Super _) = True"
| "is_Class _ = False"

text \<open>The part of a dotted name after the last dot (\<open>name.rpartition(".")\<close>).\<close>

definition base_name :: "string \<Rightarrow> string" where
  "base_name name = rev (takeWhile (\<lambda>c. c \<noteq> CHR ''.'') (rev name))"

definition cache_put :: "key \<Rightarrow> aval option \<Rightarrow> vm_state \<Rightarrow> vm_state" where
  "cache_put k v s = s\<lparr>convert_cache := (convert_cache s)(k \<mapsto> v)\<rparr>"

text \<open>A new object takes the next object number.\<close>

definition alloc :: "vm_state \<Rightarrow> nat \<times> vm_state" where
  "alloc s = (next_id s, s\<lparr>next_id := Suc (next_id s)\<rparr>)"

text \<open>
  \<open>_create_new_unknown_value\<close>: one \<open>Unknown\<close> for each point of the program and action, when
  unknowns are cached and a frame is active; a new one otherwise.
\<close>

definition priv_create_new_unknown_value :: "env \<Rightarrow> string \<Rightarrow> vm_state \<Rightarrow> aval \<times> vm_state" where
  "priv_create_new_unknown_value E action s =
     (if \<not> cache_unknowns E \<or> action = [] \<or> frame_opcode s = None
      then (Unknown (next_id s), snd (alloc s))
      else (case convert_cache s (KUnknown (the (frame_opcode s)) action) of
              Some (Some v) \<Rightarrow> (v, s)
            | _ \<Rightarrow> (Unknown (next_id s),
                    cache_put (KUnknown (the (frame_opcode s)) action) (Some (Unknown (next_id s)))
                      (snd (alloc s)))))"

text \<open>
  The conversions call each other. They are defined level by level: the conversions of
  level \<open>n + 1\<close> call those of level \<open>n\<close>, and at level \<open>0\<close> a conversion raises
  \<open>RuntimeError\<close>, as Python does when the recursion depth is exceeded. The pieces below
  take the conversions of the level beneath as arguments (\<open>cv\<close> is \<open>constant_to_value\<close>,
  \<open>cvar\<close> is \<open>constant_to_var\<close>).
\<close>

type_synonym to_value = "pyval \<Rightarrow> node option \<Rightarrow> vm_state \<Rightarrow> (exc + aval) \<times> vm_state"

type_synonym to_var = "pyval \<Rightarrow> node option \<Rightarrow> vm_state \<Rightarrow> (exc + variable) \<times> vm_state"

text \<open>\<open>[self.constant_to_value(t, subst, node) for t in type_list]\<close>.\<close>

fun convert_types ::
  "to_value \<Rightarrow> pytd list \<Rightarrow> node \<Rightarrow> vm_state \<Rightarrow> (exc + aval list) \<times> vm_state" where
  "convert_types cv [] node s = (Inr [], s)"
| "convert_types cv (t # rest) node s =
     (case cv (Pytd t) (Some node) s of
        (Inl e, s1) \<Rightarrow> (Inl e, s1)
      | (Inr v, s1) \<Rightarrow>
          (case convert_types cv rest node s1 of
             (Inl e, s2) \<Rightarrow> (Inl e, s2)
           | (Inr vs, s2) \<Rightarrow> (Inr (v # vs), s2)))"

text \<open>
  The loop of \<open>constant_to_var\<close> over the members of a union: each member but
  \<open>NothingType\<close> is converted as an instance and bound in the variable.
\<close>

fun convert_instances ::
  "to_value \<Rightarrow> pytd list \<Rightarrow> node \<Rightarrow> variable \<Rightarrow> vm_state \<Rightarrow> (exc + variable) \<times> vm_state" where
  "convert_instances cv [] node var s = (Inr var, s)"
| "convert_instances cv (t # rest) node var s =
     (if t = NothingType then convert_instances cv rest node var s
      else
        (case cv (AsInstance (next_id s) t) (Some node) (snd (alloc s)) of
           (Inl e, s1) \<Rightarrow> (Inl e, s1)
         | (Inr v, s1) \<Rightarrow> convert_instances cv rest node (AddBinding var v [] node) s1))"

text \<open>\<open>constant_to_var(abstract.AsInstance(p), subst, node)\<close> for each parameter \<open>p\<close>.\<close>

fun convert_contents ::
  "to_var \<Rightarrow> pytd list \<Rightarrow> node \<Rightarrow> vm_state \<Rightarrow> (exc + variable list) \<times> vm_state" where
  "convert_contents cvar [] node s = (Inr [], s)"
| "convert_contents cvar (p # rest) node s =
     (case cvar (AsInstance (next_id s) p) (Some node) (snd (alloc s)) of
        (Inl e, s1) \<Rightarrow> (Inl e, s1)
      | (Inr v, s1) \<Rightarrow>
          (case convert_contents cvar rest node s1 of
             (Inl e, s2) \<Rightarrow> (Inl e, s2)
           | (Inr vs, s2) \<Rightarrow> (Inr (v # vs), s2)))"

text \<open>
  Modelled from the spec: the constructor of a declared class (\<open>abstract.PyTDClass\<close>) is
  not among the sources. It converts the declared bases, re-entering the converter, and
  computes the method-resolution order from them; an inconsistent order raises
  \<open>MROError\<close>, which \<open>_constant_to_value\<close> reports, giving the wildcard.
\<close>

definition convert_class ::
  "env \<Rightarrow> converter \<Rightarrow> to_value \<Rightarrow> string \<Rightarrow> pytd list \<Rightarrow> vm_state \<Rightarrow> (exc + aval) \<times> vm_state" where
  "convert_class E C cv name parents s =
     (case convert_types cv parents root_cfg_node s of
        (Inl e, s1) \<Rightarrow> (Inl e, s1)
      | (Inr bases, s1) \<Rightarrow>
          (case mro_merge E bases of
             None \<Rightarrow>
               (case attr (unsolvable C) ''unsolvable'' of
                  Inl e \<Rightarrow> (Inl e, report_error (mro_error (base_name name)) s1)
                | Inr u \<Rightarrow> (Inr u, report_error (mro_error (base_name name)) s1))
           | Some rest \<Rightarrow>
               (Inr (PyTDClass (next_id s1) (base_name name) rest []), snd (alloc s1))))"

text \<open>
  The branch for \<open>pytd.GenericType\<close>: the class of a generic. The type parameters are a
  lazy dictionary: an item is the declaration to convert on first access, or the wildcard
  for a formal parameter that has no actual parameter.
\<close>

definition convert_generic_type ::
  "env \<Rightarrow> converter \<Rightarrow> to_value \<Rightarrow> bool \<Rightarrow> pytd \<Rightarrow> pytd list \<Rightarrow> vm_state
     \<Rightarrow> (exc + aval) \<times> vm_state" where
  "convert_generic_type E C cv is_tuple base_type parameters s =
     (case base_type of
        ClassType bname \<Rightarrow>
          (case cv (case cls_pointer E bname of None \<Rightarrow> PyNone | Some c \<Rightarrow> Pytd c)
                  (Some root_cfg_node) s of
             (Inl e, s1) \<Rightarrow> (Inl e, s1)
           | (Inr base, s1) \<Rightarrow>
               (if \<not> is_Class base then (attr (unsolvable C) ''unsolvable'', s1)
                else if is_tuple then
                  (Inr (TupleClass (next_id s1) base
                          (map (\<lambda>(i, p). (Idx i, Inl p)) (enumerate 0 parameters)
                           @ [(Name ''T'', Inl (UnionType parameters))])),
                   snd (alloc s1))
                else
                  (case cls_pointer E bname of
                     Some (Class cn cps template) \<Rightarrow>
                       (if \<not> (bname = ''typing.Generic'' \<or> length parameters \<le> length template)
                        then (Inl AssertionError, s1)
                        else if length parameters < length template then
                          (case attr (unsolvable C) ''unsolvable'' of
                             Inl e \<Rightarrow> (Inl e, s1)
                           | Inr u \<Rightarrow>
                               (Inr (ParameterizedClass (next_id s1) base
                                       (map (\<lambda>(i, nm).
                                               (Name nm,
                                                if i < length parameters
                                                then Inl (parameters ! i) else Inr u))
                                          (enumerate 0 template))),
                                snd (alloc s1)))
                        else
                          (Inr (ParameterizedClass (next_id s1) base
                                  (map (\<lambda>(nm, p). (Name nm, Inl p)) (zip template parameters))),
                           snd (alloc s1)))
                   | _ \<Rightarrow> (Inl (AttributeError ''template''), s1))))
      | _ \<Rightarrow> (Inl AssertionError, s))"

text \<open>The branch for \<open>pytd.Class\<close>.\<close>

definition convert_pytd_class ::
  "env \<Rightarrow> converter \<Rightarrow> to_value \<Rightarrow> string \<Rightarrow> pytd list \<Rightarrow> vm_state \<Rightarrow> (exc + aval) \<times> vm_state" where
  "convert_pytd_class E C cv name parents s =
     (if name = ''__builtin__.super'' then (attr (super_type C) ''super'', s)
      else if name = ''__builtin__.object'' then (attr (object_type C) ''object_type'', s)
      else if name = ''types.ModuleType'' then (attr (module_type C) ''module_type'', s)
      else convert_class E C cv name parents s)"

text \<open>The branches of \<open>_constant_to_value\<close> for declared types.\<close>

definition convert_pytd ::
  "env \<Rightarrow> converter \<Rightarrow> to_value \<Rightarrow> pytd \<Rightarrow> vm_state \<Rightarrow> (exc + aval) \<times> vm_state" where
  "convert_pytd E C cv t s =
     (case t of
        Class name parents template \<Rightarrow> convert_pytd_class E C cv name parents s
      | ClassType name \<Rightarrow>
          (case cls_pointer E name of
             None \<Rightarrow> (Inl AssertionError, s)
           | Some c \<Rightarrow> cv (Pytd c) (Some root_cfg_node) s)
      | NothingType \<Rightarrow> (attr (nothing C) ''nothing'', s)
      | AnythingType \<Rightarrow> (attr (unsolvable C) ''unsolvable'', s)
      | UnionType type_list \<Rightarrow>
          (case convert_types cv type_list root_cfg_node s of
             (Inl e, s1) \<Rightarrow> (Inl e, s1)
           | (Inr options, s1) \<Rightarrow>
               (if length options > 1 then (Inr (Union_val options), s1)
                else if options = [] then (Inl IndexError, s1)
                else (Inr (hd options), s1)))
      | GenericType base_type parameters \<Rightarrow>
          convert_generic_type E C cv False base_type parameters s
      | TupleType base_type parameters \<Rightarrow>
          convert_generic_type E C cv True base_type parameters s)"

text \<open>
  The branch for an instance of a declared class, with its own cache key
  \<open>(abstract.Instance, cls)\<close>.
\<close>

definition instance_of_class ::
  "env \<Rightarrow> converter \<Rightarrow> to_value \<Rightarrow> pytd \<Rightarrow> vm_state \<Rightarrow> (exc + aval) \<times> vm_state" where
  "instance_of_class E C cv cls s =
     (case convert_cache s (KInstance cls) of
        Some (Some v) \<Rightarrow> (Inr v, s)
      | Some None \<Rightarrow> (Inl TypeError, s)
      | None \<Rightarrow>
          (case cls of
             Class name parents template \<Rightarrow>
               (if name = ''__builtin__.type'' \<or> name = ''__builtin__.property'' then
                  (case priv_create_new_unknown_value E ''type'' s of
                     (v, s1) \<Rightarrow> (Inr v, cache_put (KInstance cls) (Some v) s1))
                else
                  (case cv (Pytd cls) (Some root_cfg_node) s of
                     (Inl e, s1) \<Rightarrow> (Inl e, s1)
                   | (Inr mycls, s1) \<Rightarrow>
                       (if template = [] then
                          (Inr (Instance (next_id s1) mycls []),
                           cache_put (KInstance cls) (Some (Instance (next_id s1) mycls []))
                             (snd (alloc s1)))
                        else
                          (case attr (unsolvable C) ''unsolvable'' of
                             Inl e \<Rightarrow> (Inl e, snd (alloc s1))
                           | Inr u \<Rightarrow>
                               (Inr (Instance (next_id s1) mycls
                                       (map (\<lambda>nm. (nm, to_variable u root_cfg_node)) template)),
                                cache_put (KInstance cls)
                                  (Some (Instance (next_id s1) mycls
                                     (map (\<lambda>nm. (nm, to_variable u root_cfg_node)) template)))
                                  (snd (alloc s1)))))))
           | _ \<Rightarrow> (Inl TypeError, s)))"

text \<open>
  The branch for an instance of a generic: the base class is \<open>cls.base_type.cls\<close>. The
  flag returned with the value tells whether \<open>get_node\<close> was called.
\<close>

definition instance_of_generic ::
  "env \<Rightarrow> to_value \<Rightarrow> to_var \<Rightarrow> bool \<Rightarrow> pytd \<Rightarrow> pytd list \<Rightarrow> node \<Rightarrow> vm_state
     \<Rightarrow> (exc + aval \<times> bool) \<times> vm_state" where
  "instance_of_generic E cv cvar is_tuple base_type parameters node s =
     (case base_type of
        ClassType bname \<Rightarrow>
          (case cls_pointer E bname of
             Some (Class cn cps template) \<Rightarrow>
               (if cn = ''__builtin__.type'' then
                  (if length parameters \<noteq> 1 then (Inl ValueError, s)
                   else
                     (case cv (Pytd (hd parameters)) (Some root_cfg_node) s of
                        (Inl e, s1) \<Rightarrow> (Inl e, s1)
                      | (Inr v, s1) \<Rightarrow> (Inr (v, False), s1)))
                else if is_tuple then
                  (case convert_contents cvar parameters node s of
                     (Inl e, s1) \<Rightarrow> (Inl e, s1)
                   | (Inr content, s1) \<Rightarrow>
                       (Inr (Tuple (next_id s1) content, parameters \<noteq> []), snd (alloc s1)))
                else
                  (case cv (Pytd (Class cn cps template)) (Some root_cfg_node) s of
                     (Inl e, s1) \<Rightarrow> (Inl e, s1)
                   | (Inr clsval, s1) \<Rightarrow>
                       (if \<not> length parameters \<le> length template
                        then (Inl AssertionError, snd (alloc s1))
                        else
                          (case convert_contents cvar parameters root_cfg_node (snd (alloc s1)) of
                             (Inl e, s2) \<Rightarrow> (Inl e, s2)
                           | (Inr ps, s2) \<Rightarrow>
                               (Inr (Instance (next_id s1) clsval (zip template ps),
                                     parameters \<noteq> []), s2)))))
           | _ \<Rightarrow> (Inl (AttributeError ''name''), s))
      | _ \<Rightarrow> (Inl AssertionError, s))"

text \<open>The branch for \<open>abstract.AsInstance\<close>, after \<open>cls = cls.cls\<close> for a \<open>ClassType\<close>.\<close>

definition instance_of ::
  "env \<Rightarrow> converter \<Rightarrow> to_value \<Rightarrow> to_var \<Rightarrow> pytd option \<Rightarrow> node \<Rightarrow> vm_state
     \<Rightarrow> (exc + aval \<times> bool) \<times> vm_state" where
  "instance_of E C cv cvar cls node s =
     (case cls of
        Some (Class name parents template) \<Rightarrow>
          (case instance_of_class E C cv (Class name parents template) s of
             (Inl e, s1) \<Rightarrow> (Inl e, s1)
           | (Inr v, s1) \<Rightarrow> (Inr (v, False), s1))
      | Some (GenericType base_type parameters) \<Rightarrow>
          instance_of_generic E cv cvar False base_type parameters node s
      | Some (TupleType base_type parameters) \<Rightarrow>
          instance_of_generic E cv cvar True base_type parameters node s
      | Some t \<Rightarrow>
          (case cv (Pytd t) (Some root_cfg_node) s of
             (Inl e, s1) \<Rightarrow> (Inl e, s1)
           | (Inr v, s1) \<Rightarrow> (Inr (v, False), s1))
      | None \<Rightarrow>
          (case cv PyNone (Some root_cfg_node) s of
             (Inl e, s1) \<Rightarrow> (Inl e, s1)
           | (Inr v, s1) \<Rightarrow> (Inr (v, False), s1)))"

text \<open>The branches of \<open>_constant_to_value\<close> for Python constants, in the order of the source.\<close>

definition convert_python_constant ::
  "env \<Rightarrow> converter \<Rightarrow> to_value \<Rightarrow> pyval \<Rightarrow> vm_state \<Rightarrow> (exc + aval) \<times> vm_state" where
  "convert_python_constant E C cv pyval s =
     (if class_of pyval = Some T_str then
        (case attr (str_type C) ''str_type'' of
           Inl e \<Rightarrow> (Inl e, s)
         | Inr t \<Rightarrow> (Inr (AbstractOrConcreteValue (next_id s) pyval t), snd (alloc s)))
      else if int_value pyval \<noteq> None \<and> -1 \<le> the (int_value pyval)
              \<and> the (int_value pyval) \<le> MAX_IMPORT_DEPTH then
        (case attr (int_type C) ''int_type'' of
           Inl e \<Rightarrow> (Inl e, s)
         | Inr t \<Rightarrow> (Inr (AbstractOrConcreteValue (next_id s) pyval t), snd (alloc s)))
      else if class_of pyval = Some T_long then
        (case primitive_class_instances C T_int of
           None \<Rightarrow> (Inl (KeyError ''int''), s)
         | Some v \<Rightarrow> (Inr v, s))
      else if class_of pyval \<noteq> None \<and> the (class_of pyval) \<in> dom (primitive_classes C) then
        (case primitive_class_instances C (the (class_of pyval)) of
           None \<Rightarrow> (Inl (KeyError (type_name (the (class_of pyval)))), s)
         | Some v \<Rightarrow> (Inr v, s))
      else
        (case pyval of
           PyType T_super \<Rightarrow> (Inr (Super (next_id s)), snd (alloc s))
         | PyType T_object \<Rightarrow> (Inr (Object (next_id s)), snd (alloc s))
         | PyType t \<Rightarrow>
             (case lookup_builtin E
                     (if t = T_FunctionType then ''typing.Callable''
                      else ''__builtin__.'' @ type_name t) of
                Inl e \<Rightarrow> (Inl e, s)
              | Inr c \<Rightarrow> cv (Pytd c) (Some root_cfg_node) s)
         | _ \<Rightarrow> (Inl NotImplementedError, s)))"

definition priv_constant_to_value ::
  "env \<Rightarrow> converter \<Rightarrow> to_value \<Rightarrow> to_var \<Rightarrow> pyval \<Rightarrow> node \<Rightarrow> vm_state
     \<Rightarrow> (exc + aval \<times> bool) \<times> vm_state" where
  "priv_constant_to_value E C cv cvar pyval node s =
     (case pyval of
        Pytd t \<Rightarrow>
          (case convert_pytd E C cv t s of
             (Inl e, s1) \<Rightarrow> (Inl e, s1)
           | (Inr v, s1) \<Rightarrow> (Inr (v, False), s1))
      | AsInstance i cls \<Rightarrow>
          instance_of E C cv cvar
            (case cls of ClassType name \<Rightarrow> cls_pointer E name | _ \<Rightarrow> Some cls) node s
      | _ \<Rightarrow>
          (case convert_python_constant E C cv pyval s of
             (Inl e, s1) \<Rightarrow> (Inl e, s1)
           | (Inr v, s1) \<Rightarrow> (Inr (v, False), s1)))"

text \<open>
  One level of \<open>constant_to_value\<close>: the memoization and the recursion guard around
  \<open>_constant_to_value\<close>.
\<close>

definition constant_to_value_level ::
  "env \<Rightarrow> converter \<Rightarrow> to_value \<Rightarrow> to_var \<Rightarrow> to_value" where
  "constant_to_value_level E C cv cvar pyval node_opt s =
     (case convert_cache s (KConstant pyval) of
        Some None \<Rightarrow>
          (case attr (unsolvable C) ''unsolvable'' of
             Inl e \<Rightarrow> (Inl e, report_error (recursion_error (pyval_name pyval)) s)
           | Inr u \<Rightarrow>
               (Inr u, cache_put (KConstant pyval) (Some u)
                         (report_error (recursion_error (pyval_name pyval)) s)))
      | Some (Some v) \<Rightarrow> (Inr v, s)
      | None \<Rightarrow>
          (case priv_constant_to_value E C cv cvar pyval
                  (case node_opt of None \<Rightarrow> root_cfg_node | Some n \<Rightarrow> n)
                  (cache_put (KConstant pyval) None s) of
             (Inl e, s1) \<Rightarrow> (Inl e, s1)
           | (Inr (v, need_node), s1) \<Rightarrow>
               (if \<not> need_node
                   \<or> (case node_opt of None \<Rightarrow> root_cfg_node | Some n \<Rightarrow> n) = root_cfg_node
                then (Inr v, cache_put (KConstant pyval) (Some v) s1)
                else (Inr v, s1))))"

text \<open>One level of \<open>constant_to_var\<close>.\<close>

definition constant_to_var_level :: "converter \<Rightarrow> to_value \<Rightarrow> to_var" where
  "constant_to_var_level C cv pyval node_opt s =
     (case pyval of
        Pytd (UnionType type_list) \<Rightarrow>
          (case convert_types cv type_list
                  (case node_opt of None \<Rightarrow> root_cfg_node | Some n \<Rightarrow> n) s of
             (Inl e, s1) \<Rightarrow> (Inl e, s1)
           | (Inr options, s1) \<Rightarrow> (Inr (NewVariable options [] root_cfg_node), s1))
      | Pytd NothingType \<Rightarrow> (Inr [], s)
      | AsInstance i AnythingType \<Rightarrow>
          (create_new_unsolvable C (case node_opt of None \<Rightarrow> root_cfg_node | Some n \<Rightarrow> n), s)
      | AsInstance i (UnionType type_list) \<Rightarrow>
          convert_instances cv type_list
            (case node_opt of None \<Rightarrow> root_cfg_node | Some n \<Rightarrow> n) [] s
      | AsInstance i cls \<Rightarrow>
          convert_instances cv [cls]
            (case node_opt of None \<Rightarrow> root_cfg_node | Some n \<Rightarrow> n) [] s
      | _ \<Rightarrow>
          (case cv pyval (Some (case node_opt of None \<Rightarrow> root_cfg_node | Some n \<Rightarrow> n)) s of
             (Inl e, s1) \<Rightarrow> (Inl e, s1)
           | (Inr v, s1) \<Rightarrow>
               (Inr (to_variable v (case node_opt of None \<Rightarrow> root_cfg_node | Some n \<Rightarrow> n)), s1)))"

text \<open>The two conversions at each level.\<close>

primrec conversions :: "env \<Rightarrow> converter \<Rightarrow> nat \<Rightarrow> to_value \<times> to_var" where
  "conversions E C 0 =
     ((\<lambda>pyval node_opt s. (Inl RuntimeError, s)), (\<lambda>pyval node_opt s. (Inl RuntimeError, s)))"
| "conversions E C (Suc n) =
     (constant_to_value_level E C (fst (conversions E C n)) (snd (conversions E C n)),
      constant_to_var_level C (fst (conversions E C n)))"

definition constant_to_value :: "env \<Rightarrow> converter \<Rightarrow> nat \<Rightarrow> to_value" where
  "constant_to_value E C depth = fst (conversions E C depth)"

definition constant_to_var :: "env \<Rightarrow> converter \<Rightarrow> nat \<Rightarrow> to_var" where
  "constant_to_var E C depth = snd (conversions E C depth)"

subsection \<open>The constructor of the converter\<close>

text \<open>Sequencing of two steps, the second of which runs when the first did not raise.\<close>

definition then_do ::
  "(exc + 'a) \<times> vm_state \<Rightarrow> ('a \<Rightarrow> vm_state \<Rightarrow> (exc + 'b) \<times> vm_state)
     \<Rightarrow> (exc + 'b) \<times> vm_state" where
  "then_do r f = (case r of (Inl e, s) \<Rightarrow> (Inl e, s) | (Inr v, s) \<Rightarrow> f v s)"

definition empty_converter :: converter where
  "empty_converter =
     \<lparr>primitive_classes = Map.empty, primitive_class_instances = Map.empty,
      object_type = None, none = None, true = None, false = None, ellipsis = None,
      none_type = None, super_type = None, str_type = None, int_type = None,
      nothing = None, unsolvable = None, empty = None,
      list_type = None, tuple_type = None, module_type = None\<rparr>"

definition primitive_types :: "pytype list" where
  "primitive_types =
     [T_int, T_float, T_str, T_unicode, T_object, T_NoneType, T_complex, T_bool, T_slice,
      T_CodeType, T_EllipsisType, T_ClassType, T_super]"

text \<open>\<open>{v: self.constant_to_value(v) for v in [...]}\<close>, in the order of the list.\<close>

fun convert_primitive_types ::
  "to_value \<Rightarrow> pytype list \<Rightarrow> vm_state \<Rightarrow> (exc + (pytype \<times> aval) list) \<times> vm_state" where
  "convert_primitive_types cv [] s = (Inr [], s)"
| "convert_primitive_types cv (t # rest) s =
     then_do (cv (PyType t) None s) (\<lambda>v s1.
     then_do (convert_primitive_types cv rest s1) (\<lambda>vs s2.
       (Inr ((t, v) # vs), s2)))"

text \<open>
  Modelled from the spec: \<open>cls.pytd_cls\<close>, the declaration a class value was built from.
  The class of a primitive type is built from the declaration found under the type's
  name in the builtins (for \<open>object\<close> and \<open>super\<close> by the constructors of
  \<open>special_builtins\<close>); a value that is not a class has no such attribute.
\<close>

definition pytd_cls :: "env \<Rightarrow> pytype \<Rightarrow> aval \<Rightarrow> exc + pytd" where
  "pytd_cls E t cls =
     (case cls of
        PyTDClass i name bases ms \<Rightarrow> lookup_builtin E (''__builtin__.'' @ type_name t)
      | Object i \<Rightarrow> lookup_builtin E (''__builtin__.'' @ type_name t)
      | Super i \<Rightarrow> lookup_builtin E (''__builtin__.'' @ type_name t)
      | _ \<Rightarrow> Inl (AttributeError ''pytd_cls''))"

text \<open>
  The loop over \<open>self.primitive_classes.items()\<close> (lines 66-77), here in the order of the
  list: the instance of each primitive class, recorded under the type and in the cache
  under \<open>(abstract.Instance, cls.pytd_cls)\<close>.
\<close>

fun make_instances ::
  "env \<Rightarrow> converter \<Rightarrow> (pytype \<times> aval) list \<Rightarrow> (pytype \<rightharpoonup> aval) \<Rightarrow> vm_state
     \<Rightarrow> (exc + (pytype \<rightharpoonup> aval)) \<times> vm_state" where
  "make_instances E C [] acc s = (Inr acc, s)"
| "make_instances E C ((t, cls) # rest) acc s =
     then_do
       (if t = T_NoneType then (attr (none C) ''none'', s)
        else if t = T_EllipsisType then (attr (ellipsis C) ''ellipsis'', s)
        else (Inr (Instance (next_id s) cls []), snd (alloc s)))
       (\<lambda>instance s1.
          (case pytd_cls E t cls of
             Inl e \<Rightarrow> (Inl e, s1)
           | Inr c \<Rightarrow>
               make_instances E C rest (acc(t \<mapsto> instance))
                 (cache_put (KInstance c) (Some instance) s1)))"

definition primitive_class :: "converter \<Rightarrow> pytype \<Rightarrow> exc + aval" where
  "primitive_class C t =
     (case primitive_classes C t of None \<Rightarrow> Inl (KeyError (type_name t)) | Some v \<Rightarrow> Inr v)"

text \<open>Lines 56-63: the constants \<open>none\<close>, \<open>true\<close>, \<open>false\<close> and \<open>ellipsis\<close>.\<close>

definition make_constants :: "converter \<Rightarrow> vm_state \<Rightarrow> (exc + converter) \<times> vm_state" where
  "make_constants C s =
     (case (primitive_class C T_NoneType, primitive_class C T_bool,
            primitive_class C T_EllipsisType) of
        (Inr nt, Inr bt, Inr et) \<Rightarrow>
          (Inr (C\<lparr>none := Some (AbstractOrConcreteValue (next_id s) PyNone nt),
                  true := Some (AbstractOrConcreteValue (next_id s + 1) (PyBool True) bt),
                  false := Some (AbstractOrConcreteValue (next_id s + 2) (PyBool False) bt),
                  ellipsis := Some (AbstractOrConcreteValue (next_id s + 3) PyEllipsis et)\<rparr>),
           s\<lparr>next_id := next_id s + 4\<rparr>)
      | (Inl e, _, _) \<Rightarrow> (Inl e, s)
      | (_, Inl e, _) \<Rightarrow> (Inl e, s\<lparr>next_id := next_id s + 1\<rparr>)
      | (_, _, Inl e) \<Rightarrow> (Inl e, s\<lparr>next_id := next_id s + 3\<rparr>))"

text \<open>
  Lines 79-87. The attributes \<open>oldstyleclass_type\<close>, \<open>set_type\<close>, \<open>dict_type\<close>, \<open>type_type\<close>,
  \<open>function_type\<close>, \<open>generator_type\<close>, \<open>iterator_type\<close> and \<open>bool_values\<close> are not read by
  the code modelled here; their conversions are run, for their effect on the cache, and
  the results are not recorded.
\<close>

definition name_types :: "converter \<Rightarrow> vm_state \<Rightarrow> (exc + converter) \<times> vm_state" where
  "name_types C s =
     (case (primitive_class C T_NoneType, primitive_class C T_ClassType,
            primitive_class C T_super, primitive_class C T_str, primitive_class C T_int) of
        (Inr nt, Inr ct, Inr su, Inr st, Inr it) \<Rightarrow>
          (Inr (C\<lparr>none_type := Some nt, super_type := Some su, str_type := Some st,
                  int_type := Some it,
                  nothing := Some (Nothing (next_id s)),
                  unsolvable := Some (Unsolvable (next_id s + 1)),
                  empty := Some (Empty (next_id s + 2))\<rparr>),
           s\<lparr>next_id := next_id s + 3\<rparr>)
      | (Inl e, _, _, _, _) \<Rightarrow> (Inl e, s)
      | (_, Inl e, _, _, _) \<Rightarrow> (Inl e, s)
      | (_, _, Inl e, _, _) \<Rightarrow> (Inl e, s)
      | (_, _, _, Inl e, _) \<Rightarrow> (Inl e, s)
      | (_, _, _, _, Inl e) \<Rightarrow> (Inl e, s))"

text \<open>
  \<open>Converter.__init__\<close>. Each conversion is run by the converter as it is at that point:
  an attribute assigned later is still missing.
\<close>

definition converter_init :: "env \<Rightarrow> nat \<Rightarrow> vm_state \<Rightarrow> (exc + converter) \<times> vm_state" where
  "converter_init E depth s =
     then_do (constant_to_value E empty_converter depth (PyType T_object) None s) (\<lambda>obj s1.
     then_do (convert_primitive_types
                (constant_to_value E (empty_converter\<lparr>object_type := Some obj\<rparr>) depth)
                primitive_types s1) (\<lambda>classes s2.
     then_do (make_constants
                (empty_converter\<lparr>object_type := Some obj, primitive_classes := map_of classes\<rparr>)
                s2) (\<lambda>C1 s3.
     then_do (make_instances E C1 classes Map.empty s3) (\<lambda>instances s4.
     then_do (name_types (C1\<lparr>primitive_class_instances := instances\<rparr>) s4) (\<lambda>C2 s5.
     then_do (constant_to_value E C2 depth (PyType T_list) None s5) (\<lambda>lt s6.
     then_do (constant_to_value E (C2\<lparr>list_type := Some lt\<rparr>) depth (PyType T_set) None s6)
       (\<lambda>st s7.
     then_do (constant_to_value E (C2\<lparr>list_type := Some lt\<rparr>) depth (PyType T_dict) None s7)
       (\<lambda>dt s8.
     then_do (constant_to_value E (C2\<lparr>list_type := Some lt\<rparr>) depth (PyType T_type) None s8)
       (\<lambda>tt s9.
     then_do (constant_to_value E (C2\<lparr>list_type := Some lt\<rparr>) depth (PyType T_ModuleType)
                None s9) (\<lambda>mt s10.
     then_do (constant_to_value E (C2\<lparr>list_type := Some lt, module_type := Some mt\<rparr>) depth
                (PyType T_FunctionType) None s10) (\<lambda>ft s11.
     then_do (constant_to_value E (C2\<lparr>list_type := Some lt, module_type := Some mt\<rparr>) depth
                (PyType T_tuple) None s11) (\<lambda>tu s12.
     then_do (constant_to_value E
                (C2\<lparr>list_type := Some lt, module_type := Some mt, tuple_type := Some tu\<rparr>)
                depth (PyType T_GeneratorType) None s12) (\<lambda>gt s13.
     then_do (constant_to_value E
                (C2\<lparr>list_type := Some lt, module_type := Some mt, tuple_type := Some tu\<rparr>)
                depth (PyType T_object) None s13) (\<lambda>ot s14.
       (Inr (C2\<lparr>list_type := Some lt, module_type := Some mt, tuple_type := Some tu\<rparr>),
        s14)))))))))))))))"

text \<open>
  Forcing an item of the lazy dictionary of type parameters
  (\<open>add_lazy_item(name, self.constant_to_value, parameters[i], subst, root)\<close>).
\<close>

definition load_type_parameter ::
  "to_value \<Rightarrow> pytd + aval \<Rightarrow> vm_state \<Rightarrow> (exc + aval) \<times> vm_state" where
  "load_type_parameter cv item s =
     (case item of
        Inl p \<Rightarrow> cv (Pytd p) (Some root_cfg_node) s
      | Inr v \<Rightarrow> (Inr v, s))"

definition formal_type_parameters :: "aval \<Rightarrow> (tparam \<times> (pytd + aval)) list" where
  "formal_type_parameters v =
     (case v of
        ParameterizedClass i base ps \<Rightarrow> ps
      | TupleClass i base ps \<Rightarrow> ps
      | _ \<Rightarrow> [])"

section \<open>Properties of the interpreter\<close>

subsection \<open>Properties of \<open>call_function\<close>\<close>









subsection \<open>Properties of operator dispatch\<close>







text \<open>
  Claim C5. When the operator has a reflected form and the value of the left operand is a
  wildcard (\<open>Unknown\<close> or \<open>Unsolvable\<close>) or the empty value, \<open>_call_binop_on_bindings\<close>
  returns at once, on an initialised converter: the node is unchanged, the result variable
  holds one binding, of the wildcard \<open>unsolvable\<close>, whose sources are the two operands,
  and the state is unchanged, so that no attribute was looked up and no method called.
  The right operand is not inspected.
\<close>

theorem C5_wildcard_left_operand:
  assumes "reverse_operator_name name = Some rname"
      and "AMBIGUOUS_OR_EMPTY (data xval)"
      and "unsolvable C = Some u"
  shows "priv_call_binop_on_bindings E C node name xval yval s =
           (Inr (node, Some [Binding u [xval, yval] node]), s)"
  using assms by (simp add: priv_call_binop_on_bindings_def attr_def NewVariable_def)

theorem C5_wildcard_left_operand_witness:
  "reverse_operator_name ''__sub__'' = Some ''__rsub__'' \<and>
   AMBIGUOUS_OR_EMPTY (data (Binding (Unknown 4) [] 0)) \<and>
   unsolvable example_converter = Some (Unsolvable 1) \<and>
   priv_call_binop_on_bindings example_env example_converter 0 ''__sub__''
       (Binding (Unknown 4) [] 0) (Binding (Instance 31 class_B []) [] 0) example_state =
     (Inr (0, Some [Binding (Unsolvable 1)
                      [Binding (Unknown 4) [] 0, Binding (Instance 31 class_B []) [] 0] 0]),
      example_state)"
proof -
  have h1: "reverse_operator_name ''__sub__'' = Some ''__rsub__''"
    by (simp add: reverse_operator_name_def reversable_operators_def)
  have h2: "AMBIGUOUS_OR_EMPTY (data (Binding (Unknown 4) [] 0))" by simp
  have h3: "unsolvable example_converter = Some (Unsolvable 1)"
    by (simp add: example_converter_def)
  from C5_wildcard_left_operand[OF h1 h2 h3] h2 h3
  show ?thesis by (simp add: reverse_operator_name_def reversable_operators_def)
qed


lemma overrides_in_mro_iff:
  "overrides_in_mro E node a supercls m \<longleftrightarrow>
     (\<exists>cls \<in> set (takeWhile (\<lambda>c. c \<noteq> supercls) m).
        \<exists>v. map_of (members cls) a = Some v \<and> Bindings E v node \<noteq> [])"
  by (induction m) (auto simp: load_lazy_attribute_def split: option.splits)





subsection \<open>Properties of sequence unpacking\<close>










end
